theory Spec2Isabelle
  imports Main
begin

section \<open>Python strings and the standard output stream\<close>

text \<open>
  The program is \<^verbatim>\<open>scripts/metric.py\<close>, a Python 2 script. Its strings are byte
  strings, modelled as \<^typ>\<open>string\<close>; its integers are unbounded, modelled as
  \<^typ>\<open>int\<close> (offsets into a line, which are never negative, as \<^typ>\<open>nat\<close>).
\<close>

text \<open>\<^verbatim>\<open>c.isspace()\<close> for a one-character byte string (C locale).\<close>

definition isspace_chr :: "char \<Rightarrow> bool" where
  "isspace_chr c = (c = CHR '' '' \<or> c = CHR 0x09 \<or> c = CHR 0x0A \<or> c = CHR 0x0B
     \<or> c = CHR 0x0C \<or> c = CHR 0x0D)"

text \<open>\<^verbatim>\<open>s.isspace()\<close>: at least one character, all of them whitespace.\<close>

definition isspace :: "string \<Rightarrow> bool" where
  "isspace s = (s \<noteq> [] \<and> list_all isspace_chr s)"

definition lstrip :: "string \<Rightarrow> string" where
  "lstrip s = dropWhile isspace_chr s"

definition rstrip :: "string \<Rightarrow> string" where
  "rstrip s = rev (dropWhile isspace_chr (rev s))"

definition strip :: "string \<Rightarrow> string" where
  "strip s = lstrip (rstrip s)"

text \<open>\<^verbatim>\<open>s.find(sub)\<close>: the lowest index at which \<open>sub\<close> occurs, or \<open>-1\<close>.\<close>

fun find_from :: "string \<Rightarrow> string \<Rightarrow> nat \<Rightarrow> int" where
  "find_from sub [] i = (if sub = [] then int i else - 1)"
| "find_from sub (c # s) i =
     (if take (length sub) (c # s) = sub then int i else find_from sub s (i + 1))"

definition str_find :: "string \<Rightarrow> string \<Rightarrow> int" where
  "str_find s sub = find_from sub s 0"

text \<open>\<^verbatim>\<open>s[a:b]\<close> for indices that are not negative.\<close>

definition slice :: "nat \<Rightarrow> nat \<Rightarrow> string \<Rightarrow> string" where
  "slice a b s = take (b - a) (drop a s)"

text \<open>\<^verbatim>\<open>s[0:k]\<close> where \<open>k\<close> is the result of a \<^verbatim>\<open>find\<close>: Python counts
  \<open>-1\<close> from the end, so a failed search drops the last character.\<close>

definition slice_to :: "int \<Rightarrow> string \<Rightarrow> string" where
  "slice_to k s = (if k < 0 then take (nat (int (length s) + k)) s else take (nat k) s)"

text \<open>\<^verbatim>\<open>str(n)\<close> for an integer.\<close>

fun digits :: "nat \<Rightarrow> string" where
  "digits n = (if n < 10 then [''0123456789'' ! n]
     else digits (n div 10) @ [''0123456789'' ! (n mod 10)])"

definition str_int :: "int \<Rightarrow> string" where
  "str_int i = (if i < 0 then CHR ''-'' # digits (nat (- i)) else digits (nat i))"

text \<open>
  Standard output. Python 2's \<^verbatim>\<open>print\<close> statement keeps a \<^verbatim>\<open>softspace\<close>
  flag on the file: an item is preceded by a space when the flag is set, and sets it
  unless it is a string ending in whitespace other than a blank; the newline that ends a
  \<^verbatim>\<open>print\<close> without trailing comma clears it, and so does \<^verbatim>\<open>sys.stdout.write\<close>.
\<close>

record ostream =
  written :: string
  softspace :: bool

definition stdout_write :: "string \<Rightarrow> ostream \<Rightarrow> ostream" where
  "stdout_write s out = \<lparr>written = written out @ s, softspace = False\<rparr>"

definition print_item :: "string \<Rightarrow> ostream \<Rightarrow> ostream" where
  "print_item s out =
     \<lparr>written = (if softspace out then written out @ '' '' else written out) @ s,
      softspace = (if s = [] then True
                   else if last s = CHR '' '' then True
                   else \<not> isspace_chr (last s))\<rparr>"

definition print_newline :: "ostream \<Rightarrow> ostream" where
  "print_newline out = \<lparr>written = written out @ [CHR 0x0A], softspace = False\<rparr>"

text \<open>\<^verbatim>\<open>print a, b, c\<close> and \<^verbatim>\<open>print a, b, c,\<close> (trailing comma: no newline).\<close>

definition py_print :: "string list \<Rightarrow> ostream \<Rightarrow> ostream" where
  "py_print items out = print_newline (fold print_item items out)"

definition py_print_comma :: "string list \<Rightarrow> ostream \<Rightarrow> ostream" where
  "py_print_comma items out = fold print_item items out"

text \<open>
  The ways a call can end other than by returning: \<^verbatim>\<open>sys.exit(n)\<close>, the
  \<^verbatim>\<open>IndexError\<close> of an index out of range and the \<^verbatim>\<open>KeyError\<close> of a missing
  dictionary key. Either way the text written so far stays
  written, so the error carries the stream.
\<close>

datatype pyerr = SystemExit int | IndexError | KeyError

type_synonym 'a result = "(pyerr \<times> ostream) + 'a"

section \<open>Tokenizer\<close>

definition isop :: "char \<Rightarrow> bool" where
  "isop c = (c = CHR ''-'' \<or> c = CHR ''+'' \<or> c = CHR '','' \<or> c = CHR ''=''
     \<or> c = CHR ''('' \<or> c = CHR '')'' \<or> c = CHR ''?'' \<or> c = CHR '':''
     \<or> c = CHR ''*'' \<or> c = CHR ''/'' \<or> c = CHR ''~'' \<or> c = CHR ''!''
     \<or> c = CHR ''^'' \<or> c = CHR ''|'' \<or> c = CHR ''&'' \<or> c = CHR ''[''
     \<or> c = CHR '']'' \<or> c = CHR ''{'' \<or> c = CHR ''}'' \<or> c = CHR ''%''
     \<or> c = CHR ''<'' \<or> c = CHR ''>'')"

definition isdecl :: "string \<Rightarrow> bool" where
  "isdecl word = (word = ''float'' \<or> word = ''double'' \<or> word = ''long''
     \<or> word = ''unsigned'' \<or> word = ''signed'' \<or> word = ''const''
     \<or> word = ''volatile'' \<or> word = ''int'' \<or> word = ''short''
     \<or> word = ''char'' \<or> word = ''register'' \<or> word = ''void''
     \<or> word = ''union'' \<or> word = ''struct'' \<or> word = ''*''
     \<or> word = ''**'' \<or> word = ''***'' \<or> word = ''****'')"

text \<open>
  The inner loops of \<^verbatim>\<open>ctok\<close>: while the line is not empty and its first character is
  of the class \<open>p\<close>, move it to the token and advance the character counter.
\<close>

fun extend_tok :: "(char \<Rightarrow> bool) \<Rightarrow> string \<Rightarrow> string \<Rightarrow> nat \<Rightarrow> string \<times> string \<times> nat" where
  "extend_tok p tok [] char = (tok, [], char)"
| "extend_tok p tok (c # line) char =
     (if p c then extend_tok p (tok @ [c]) line (char + 1) else (tok, c # line, char))"

lemma extend_tok_length:
  "length (fst (snd (extend_tok p tok line char))) \<le> length line"
  by (induction line arbitrary: tok char) (auto intro: le_SucI)

lemma extend_tok_shorter:
  "extend_tok p tok line char = (t, l', c') \<Longrightarrow> length l' \<le> length line"
  using extend_tok_length [of p tok line char] by simp

text \<open>The class of the last branch: neither operator, terminator nor whitespace.\<close>

definition isword :: "char \<Rightarrow> bool" where
  "isword c = (isop c = False \<and> c \<noteq> CHR '';'' \<and> isspace_chr c = False)"

text \<open>The outer loop of \<^verbatim>\<open>ctok\<close>, on the rest of the line, the character counter and
  the two lists built so far.\<close>

function ctok_loop :: "string \<Rightarrow> nat \<Rightarrow> string list \<Rightarrow> nat list \<Rightarrow> string list \<times> nat list" where
  "ctok_loop [] char toks chars = (toks, chars)"
| "ctok_loop (c # line) char toks chars =
     (let schar = char in
      if isspace_chr c then
        (case extend_tok isspace_chr [c] line char of
           (tok, line', char') \<Rightarrow> ctok_loop line' (char' + 1) (toks @ [tok]) (chars @ [schar]))
      else if isop c then
        (case extend_tok isop [c] line char of
           (tok, line', char') \<Rightarrow> ctok_loop line' (char' + 1) (toks @ [tok]) (chars @ [schar]))
      else if c = CHR '';'' then
        ctok_loop line (char + 1) (toks @ ['';'']) (chars @ [schar])
      else
        (case extend_tok isword [c] line char of
           (tok, line', char') \<Rightarrow> ctok_loop line' (char' + 1) (toks @ [tok]) (chars @ [schar])))"
  by pat_completeness auto
termination
  by (relation "measure (\<lambda>(line, char, toks, chars). length line)")
     (auto simp: less_Suc_eq_le dest!: extend_tok_shorter [OF sym])

definition ctok :: "string \<Rightarrow> string list \<times> nat list" where
  "ctok line = ctok_loop line 0 [] []"

text \<open>\<^verbatim>\<open>ctok_nspace\<close>: the tokens that are not whitespace, each with its offset.\<close>

definition ctok_nspace :: "string \<Rightarrow> string list \<times> nat list" where
  "ctok_nspace line =
     (let (toks, chars) = ctok line;
          filtered = filter (\<lambda>x. isspace (fst x) = False) (zip toks chars)
      in (map fst filtered, map snd filtered))"

section \<open>Declarations and namespaces\<close>

text \<open>The class \<^verbatim>\<open>Decl\<close>; the constructor strips the comment.\<close>

record decl =
  decl_pre :: string
  decl_lineno :: int
  decl_name :: string
  decl_type :: string
  decl_init :: string
  decl_fninit :: string
  decl_level :: int
  decl_macro :: string
  decl_comment :: string
  decl_contrib :: string
  decl_ex :: string

definition Decl :: "int \<Rightarrow> string \<Rightarrow> string \<Rightarrow> string \<Rightarrow> int \<Rightarrow> string \<Rightarrow> string
    \<Rightarrow> string \<Rightarrow> string \<Rightarrow> string \<Rightarrow> string \<Rightarrow> decl" where
  "Decl lineno name type init level macro comment fninit pre contrib ex =
     \<lparr>decl_pre = pre, decl_lineno = lineno, decl_name = name, decl_type = type,
      decl_init = init, decl_fninit = fninit, decl_level = level, decl_macro = macro,
      decl_comment = strip comment, decl_contrib = contrib, decl_ex = ex\<rparr>"

text \<open>
  A namespace is a dictionary from names to \<^verbatim>\<open>Decl\<close> objects, a used-set a dictionary
  that maps each recorded name to itself. Every call site passes dictionaries that are
  distinct objects, and \<^verbatim>\<open>ins_decl\<close> builds a new \<^verbatim>\<open>Decl\<close> for each namespace, so
  no two dictionaries share a value: they are modelled as maps, returned updated.
\<close>

type_synonym namespace = "string \<rightharpoonup> decl"
type_synonym usedset = "string \<rightharpoonup> string"

text \<open>
  An element of the list \<^verbatim>\<open>used\<close> inside \<^verbatim>\<open>ins_decl\<close>: one of the caller's
  dictionaries, or a string once \<^verbatim>\<open>used[0] = t\<close> has overwritten the element.
\<close>

datatype uslot = UDict usedset | UStr string

definition dq :: string where
  "dq = [CHR 0x22]"

definition sq :: string where
  "sq = [CHR 0x27]"

text \<open>\<^verbatim>\<open>print '#line', lineno, '"' + args[0] + '"'\<close>, where \<open>mfile\<close> stands for the
  global \<^verbatim>\<open>args[0]\<close>, the name of the description file.\<close>

definition print_line_directive :: "string \<Rightarrow> int \<Rightarrow> ostream \<Rightarrow> ostream" where
  "print_line_directive mfile lineno out =
     py_print [''#line'', str_int lineno, dq @ mfile @ dq] out"

text \<open>The head of \<^verbatim>\<open>ins_decl\<close>: a trailing \<^verbatim>\<open>#\<close> comment and a block comment are cut
  from the line. Result: the comment, the line, the output.\<close>

definition strip_comment :: "string \<Rightarrow> string \<Rightarrow> int \<Rightarrow> ostream \<Rightarrow> string \<times> string \<times> ostream" where
  "strip_comment mfile line lineno out =
     (let comment = '''';
          pos = str_find line ''#'';
          (comment, line) =
            (if pos > 0 then (drop (nat pos + 1) line, take (nat pos) line)
             else (comment, line));
          pos = str_find line ''/*''
      in if pos > 0 then
           (let pos2 = str_find line ''*/'' in
            if pos2 > 0 then
              (let pos2 = pos2 + 2
               in (slice (nat pos + 2) (nat pos2 - 2) line,
                   take (nat pos) line @ drop (nat pos2) line, out))
            else
              (comment, line,
               py_print [''#error '' @ dq @ ''multiline comment in declaration'' @ dq]
                 (print_line_directive mfile lineno out)))
         else (comment, line, out))"

text \<open>The loop that collects the type: \<open>None\<close> is the \<^verbatim>\<open>IndexError\<close> of \<^verbatim>\<open>toks[0]\<close>
  when \<^verbatim>\<open>struct\<close> or \<^verbatim>\<open>union\<close> is the last token.\<close>

fun type_loop :: "string \<Rightarrow> string list \<Rightarrow> (string \<times> string list) option" where
  "type_loop type [] = Some (type, [])"
| "type_loop type (t # toks) =
     (if isdecl t then
        (if t = ''struct'' \<or> t = ''union'' then
           (case toks of
              [] \<Rightarrow> None
            | t2 # toks2 \<Rightarrow> type_loop (type @ t @ '' '' @ t2 @ '' '') toks2)
         else type_loop (type @ t @ '' '') toks)
      else Some (type, t # toks))"

text \<open>The three nested loops that record the quantities an initialiser uses.\<close>

definition record_used :: "namespace list \<Rightarrow> string list \<Rightarrow> usedset list \<Rightarrow> usedset list" where
  "record_used namespaces toks used =
     fold (\<lambda>t used.
        fold (\<lambda>n used. if n t \<noteq> None then map (\<lambda>u. u(t \<mapsto> t)) used else used)
          namespaces used)
       toks used"

text \<open>The loop over the tokens of \<^verbatim>\<open>contrib\<close>, on the list \<^verbatim>\<open>used\<close> itself:
  \<^verbatim>\<open>if (t in namespaces[0]): used[0] = t\<close>. \<open>None\<close> is the \<^verbatim>\<open>IndexError\<close> of an
  empty list.\<close>

fun contrib_loop :: "namespace list \<Rightarrow> string list \<Rightarrow> uslot list \<Rightarrow> uslot list option" where
  "contrib_loop namespaces [] used = Some used"
| "contrib_loop namespaces (t # toks) used =
     (case namespaces of
        [] \<Rightarrow> None
      | n0 # _ \<Rightarrow>
          (if n0 t \<noteq> None then
             (case used of
                [] \<Rightarrow> None
              | _ # rest \<Rightarrow> contrib_loop namespaces toks (UStr t # rest))
           else contrib_loop namespaces toks used))"

text \<open>
  What a call of \<^verbatim>\<open>ins_decl\<close> that returns leaves behind: the namespaces and the
  used-sets (the caller's dictionaries, updated in place), the list \<^verbatim>\<open>used\<close> as the
  call leaves it, and the output.
\<close>

record ins_state =
  ins_namespaces :: "namespace list"
  ins_used :: "usedset list"
  ins_used_list :: "uslot list"
  ins_out :: ostream

definition ins_decl :: "string \<Rightarrow> namespace list \<Rightarrow> usedset list \<Rightarrow> string \<Rightarrow> int \<Rightarrow> string
    \<Rightarrow> int \<Rightarrow> string \<Rightarrow> string \<Rightarrow> string \<Rightarrow> string \<Rightarrow> ostream \<Rightarrow> ins_state result" where
  "ins_decl mfile namespaces used line level macro lineno fninit pre contrib ex out =
     (case strip_comment mfile line lineno out of (comment, line, out) \<Rightarrow>
      (case ctok_nspace (rstrip line) of (toks, chars) \<Rightarrow>
       (case type_loop '''' toks of
          None \<Rightarrow> Inl (IndexError, out)
        | Some (type, toks) \<Rightarrow>
            if toks \<noteq> [] then
              if list_ex (\<lambda>n. n (hd toks) \<noteq> None) namespaces then
                Inl (SystemExit 2,
                  py_print [''#error '' @ dq @ ''duplicate'', ''declaration '' @ sq,
                      rstrip line, sq @ dq]
                    (print_line_directive mfile lineno out))
              else if last toks \<noteq> '';'' then
                Inl (SystemExit 2,
                  py_print [''#error '' @ dq @ ''declaration without semi-colon ending'' @ dq]
                    (print_line_directive mfile lineno out))
              else
                (let toks = butlast toks in
                 if length chars \<le> length chars - length toks then Inl (IndexError, out)
                 else
                   (let init = drop (chars ! (length chars - length toks)) line;
                        init = slice_to (str_find init '';'') init;
                        used = record_used namespaces (tl toks) used
                    in case toks of
                         [] \<Rightarrow> Inl (IndexError, out)
                       | name # _ \<Rightarrow>
                           (let namespaces =
                                  map (\<lambda>n. n(name \<mapsto> Decl lineno name (strip type) (strip init)
                                          level macro comment fninit pre contrib ex))
                                    namespaces
                            in case contrib_loop namespaces (fst (ctok_nspace contrib))
                                      (map UDict used) of
                                 None \<Rightarrow> Inl (IndexError, out)
                               | Some used_list \<Rightarrow>
                                   Inr \<lparr>ins_namespaces = namespaces, ins_used = used,
                                        ins_used_list = used_list, ins_out = out\<rparr>)))
            else
              Inl (SystemExit 2,
                py_print [''#error '' @ dq @ ''error parsing declaration'' @ sq,
                    rstrip line, sq @ dq]
                  (print_line_directive mfile lineno out)))))"

section \<open>Function bodies: declarations, then statements\<close>

text \<open>
  The description file is read line by line. It is modelled by the lines still to be
  read; \<^verbatim>\<open>file.readline()\<close> returns the next one, and the empty string at the end of
  the file.
\<close>

fun readline :: "string list \<Rightarrow> string \<times> string list" where
  "readline [] = ('''', [])"
| "readline (l # file) = (l, file)"

lemma readline_length:
  "(l, file') = readline file \<Longrightarrow>
     length file' < length file \<or> (l = [] \<and> file' = [] \<and> file = [])"
  by (cases "file") auto

text \<open>What \<^verbatim>\<open>process_decl\<close> returns and leaves behind: the pair
  \<^verbatim>\<open>[lineno, line]\<close>, the rest of the file, the namespace, the used-set, the output.\<close>

record decl_state =
  ds_lineno :: int
  ds_line :: string
  ds_file :: "string list"
  ds_decl :: namespace
  ds_decl_used :: usedset
  ds_out :: ostream

text \<open>The \<^verbatim>\<open>while\<close> loop of \<^verbatim>\<open>process_decl\<close> and what follows it.\<close>

function process_decl_loop :: "string \<Rightarrow> string list \<Rightarrow> namespace \<Rightarrow> usedset \<Rightarrow> int \<Rightarrow> string
    \<Rightarrow> ostream \<Rightarrow> decl_state result" where
  "process_decl_loop mfile file decl decl_used lineno line out =
     (if line \<noteq> '''' \<and> rstrip line \<noteq> ''}'' then
        (if length (strip line) > 0 \<and> hd (strip line) \<noteq> CHR ''#'' then
           (case ctok_nspace line of (toks, chars) \<Rightarrow>
              (case toks of
                 [] \<Rightarrow> Inl (IndexError, out)
               | tok0 # _ \<Rightarrow>
                   if isdecl tok0 then
                     (case ins_decl mfile [decl] [decl_used] line 1 '''' lineno '''' '''' ''''
                             ''user declared quantity'' out of
                        Inl e \<Rightarrow> Inl e
                      | Inr r \<Rightarrow>
                          (case readline file of (line', file') \<Rightarrow>
                             process_decl_loop mfile file' (hd (ins_namespaces r))
                               (hd (ins_used r)) (lineno + 1) line' (ins_out r)))
                   else
                     Inr \<lparr>ds_lineno = lineno, ds_line = line, ds_file = file, ds_decl = decl,
                          ds_decl_used = decl_used, ds_out = out\<rparr>))
         else
           (case readline file of (line', file') \<Rightarrow>
              process_decl_loop mfile file' decl decl_used (lineno + 1) line' out))
      else if line = '''' then
        Inl (SystemExit 2,
          py_print [''#error '' @ dq @ ''unexpected EOF'' @ dq]
            (print_line_directive mfile lineno out))
      else
        Inr \<lparr>ds_lineno = lineno, ds_line = line, ds_file = file, ds_decl = decl,
             ds_decl_used = decl_used, ds_out = out\<rparr>)"
  by pat_completeness auto
termination
  by (relation "measure (\<lambda>(mfile, file, decl, decl_used, lineno, line, out).
        length file + (if line = [] then 0 else 1))")
     (auto dest!: readline_length)

definition process_decl :: "string \<Rightarrow> string list \<Rightarrow> namespace \<Rightarrow> usedset \<Rightarrow> int \<Rightarrow> ostream
    \<Rightarrow> decl_state result" where
  "process_decl mfile file decl decl_used lineno out =
     (case readline file of (line, file') \<Rightarrow>
        process_decl_loop mfile file' decl decl_used (lineno + 1) line out)"

declare process_decl_loop.simps [simp del]

text \<open>
  A statement is the three-element list \<^verbatim>\<open>[lineno, level, text]\<close>; its elements are
  \<^verbatim>\<open>s[0]\<close>, \<^verbatim>\<open>s[1]\<close> and \<^verbatim>\<open>s[2]\<close>.
\<close>

record stmt =
  stmt_lineno :: int
  stmt_level :: int
  stmt_text :: string

text \<open>
  The loop that extends an assignment over the following lines until its last token is
  the terminator. It never looks at what \<^verbatim>\<open>readline\<close> returns, so at the end of the
  file it reads empty strings for ever: the result \<open>None\<close> is that run.
\<close>

partial_function (option) extend_line :: "string list \<Rightarrow> string \<Rightarrow> int \<Rightarrow> string list
    \<Rightarrow> (string list \<times> string \<times> int \<times> string list) option" where
  "extend_line toks line lineno file =
     (if last toks \<noteq> '';'' then
        (case readline file of (nline, file') \<Rightarrow>
           extend_line (toks @ fst (ctok_nspace nline)) (rstrip line @ '' '' @ nline)
             (lineno + 1) file')
      else Some (toks, line, lineno, file))"

text \<open>
  The loop over the operands of a statement, which \<^verbatim>\<open>levelise\<close> has twice with the
  same body (over \<^verbatim>\<open>toks[2:]\<close> for an assignment, over \<^verbatim>\<open>toks\<close> otherwise): every
  token that names a declaration is recorded as used; a level of 6 prints the two error
  lines, a level above the current one replaces it.
\<close>

fun scan_operands :: "string \<Rightarrow> namespace \<Rightarrow> int \<Rightarrow> string list \<Rightarrow> usedset \<Rightarrow> int \<Rightarrow> ostream
    \<Rightarrow> usedset \<times> int \<times> ostream" where
  "scan_operands mfile decl lineno [] used level out = (used, level, out)"
| "scan_operands mfile decl lineno (t # toks) used level out =
     (case decl t of
        None \<Rightarrow> scan_operands mfile decl lineno toks used level out
      | Some d \<Rightarrow>
          (if decl_level d = 6 then
             scan_operands mfile decl lineno toks (used(t \<mapsto> t)) level
               (py_print [''#error '' @ dq @ ''accumulator used as rvalue'' @ dq]
                  (print_line_directive mfile lineno out))
           else if decl_level d > level then
             scan_operands mfile decl lineno toks (used(t \<mapsto> t)) (decl_level d) out
           else
             scan_operands mfile decl lineno toks (used(t \<mapsto> t)) level out))"

definition is_assign_op :: "string \<Rightarrow> bool" where
  "is_assign_op tok = (tok = ''='' \<or> tok = ''+='' \<or> tok = ''-='' \<or> tok = ''/=''
     \<or> tok = ''*='' \<or> tok = ''&='' \<or> tok = ''|='' \<or> tok = ''^='')"

text \<open>What \<^verbatim>\<open>levelise\<close> returns and leaves behind.\<close>

record level_state =
  ls_lineno :: int
  ls_line :: string
  ls_file :: "string list"
  ls_decl :: namespace
  ls_list :: "stmt list"
  ls_used :: usedset
  ls_out :: ostream

text \<open>
  The body of the assignment branch after the line has been extended; \<open>target\<close> is
  \<^verbatim>\<open>decl[toks[0]]\<close>, which the branch condition has found.
\<close>

definition levelise_assign :: "string \<Rightarrow> decl \<Rightarrow> string list \<Rightarrow> string \<Rightarrow> int \<Rightarrow> namespace
    \<Rightarrow> stmt list \<Rightarrow> usedset \<Rightarrow> ostream \<Rightarrow> namespace \<times> stmt list \<times> usedset \<times> ostream" where
  "levelise_assign mfile target toks line lineno decl list used out =
     (let level = 1;
          out = (if decl_lineno target = 0 \<and> take (length ''const'') (decl_type target) = ''const''
                 then py_print [''#error '' @ dq @ ''assigning to const quantity'' @ dq]
                        (print_line_directive mfile lineno out)
                 else out);
          used = used(hd toks \<mapsto> hd toks);
          (used, level, out) = scan_operands mfile decl lineno (drop 2 toks) used level out;
          decl = (case decl (hd toks) of
                    None \<Rightarrow> decl
                  | Some d \<Rightarrow> decl(hd toks \<mapsto> d\<lparr>decl_level := level\<rparr>))
      in (decl, list @ [\<lparr>stmt_lineno = lineno, stmt_level = level, stmt_text = strip line\<rparr>],
          used, out))"

partial_function (option) levelise :: "string \<Rightarrow> string list \<Rightarrow> string \<Rightarrow> int \<Rightarrow> namespace
    \<Rightarrow> stmt list \<Rightarrow> usedset \<Rightarrow> ostream \<Rightarrow> level_state option" where
  "levelise mfile file line lineno decl list used out =
     (if line \<noteq> '''' \<and> rstrip line \<noteq> ''}'' then
        (case ctok_nspace line of (toks, chars) \<Rightarrow>
           (case (if length toks > 2 \<and> is_assign_op (toks ! 1) then decl (toks ! 0) else None) of
              Some target \<Rightarrow>
                Option.bind (extend_line toks line lineno file)
                  (\<lambda>(toks, line, lineno, file).
                     case levelise_assign mfile target toks line lineno decl list used out of
                       (decl, list, used, out) \<Rightarrow>
                         (case readline file of (line', file') \<Rightarrow>
                            levelise mfile file' line' (lineno + 1) decl list used out))
            | None \<Rightarrow>
                if toks \<noteq> [] \<and> hd (strip line) = CHR ''#'' then
                  (case readline file of (line', file') \<Rightarrow>
                     levelise mfile file' line' (lineno + 1) decl
                       (list @ [\<lparr>stmt_lineno = lineno, stmt_level = 1,
                                 stmt_text = ''/* '' @ lstrip (tl (strip line)) @ '' */''\<rparr>])
                       used out)
                else
                  (case scan_operands mfile decl lineno toks used 1 out of
                     (used, level, out) \<Rightarrow>
                       (case readline file of (line', file') \<Rightarrow>
                          levelise mfile file' line' (lineno + 1) decl
                            (list @ [\<lparr>stmt_lineno = lineno, stmt_level = level,
                                      stmt_text = strip line\<rparr>])
                            used out))))
      else
        Some \<lparr>ls_lineno = lineno, ls_line = line, ls_file = file, ls_decl = decl,
              ls_list = list, ls_used = used, ls_out = out\<rparr>)"

declare extend_line.simps [code]
declare levelise.simps [code]

section \<open>Level propagation\<close>

text \<open>
  \<^verbatim>\<open>propagate\<close> changes the statements through references: the loop variable \<^verbatim>\<open>s\<close>
  is an element of the list, and \<^verbatim>\<open>s[1] = prevlevel\<close> writes into that element. The
  statement objects are held in the list \<^verbatim>\<open>statements\<close> (\<^verbatim>\<open>levelise\<close> appends a
  fresh object for each statement, so no two positions share one); a reference is the
  position of the object. Each loop runs over a list of references and carries the
  statements, which the writes update.
\<close>

fun propagate_loop1 :: "nat list \<Rightarrow> int \<Rightarrow> stmt list \<Rightarrow> stmt list" where
  "propagate_loop1 [] prevlevel statements = statements"
| "propagate_loop1 (s # rest) prevlevel statements =
     (let statements' =
        (if str_find (stmt_text (statements ! s)) ''}'' \<ge> 0 then
           (if str_find (stmt_text (statements ! s)) ''{'' < 0 then
              (if prevlevel > stmt_level (statements ! s)
               then statements[s := (statements ! s)\<lparr>stmt_level := prevlevel\<rparr>]
               else statements)
            else statements)
         else statements)
      in propagate_loop1 rest (stmt_level (statements' ! s)) statements')"

fun propagate_loop2 :: "nat list \<Rightarrow> int \<Rightarrow> stmt list \<Rightarrow> stmt list" where
  "propagate_loop2 [] prevlevel statements = statements"
| "propagate_loop2 (s # rest) prevlevel statements =
     (let statements' =
        (if str_find (stmt_text (statements ! s)) ''{'' \<ge> 0 then
           (if str_find (stmt_text (statements ! s)) ''}'' < 0 then
              (if prevlevel > stmt_level (statements ! s)
               then statements[s := (statements ! s)\<lparr>stmt_level := prevlevel\<rparr>]
               else statements)
            else statements)
         else statements)
      in propagate_loop2 rest (stmt_level (statements' ! s)) statements')"

text \<open>
  \<^verbatim>\<open>rev = map(lambda x: x, statements)\<close> is a new list of the same references. The next
  line of the source is \<^verbatim>\<open>rev.reverse\<close>, an attribute access with no call: it leaves
  \<^verbatim>\<open>rev\<close> as it is, and so does the model.
\<close>

definition propagate :: "stmt list \<Rightarrow> stmt list" where
  "propagate statements =
     (let refs = [0..<length statements];
          statements1 = propagate_loop1 refs 0 statements;
          rev = map (\<lambda>x. x) refs
      in propagate_loop2 rev 0 statements1)"

section \<open>Emission\<close>

text \<open>\<^verbatim>\<open>str.split('\n')\<close> and \<^verbatim>\<open>'\n'.join(...)\<close>.\<close>

fun split_nl :: "string \<Rightarrow> string list" where
  "split_nl [] = [[]]"
| "split_nl (c # s) =
     (if c = CHR 0x0A then [] # split_nl s
      else (case split_nl s of [] \<Rightarrow> [[c]] | x # xs \<Rightarrow> (c # x) # xs))"

definition join_nl :: "string list \<Rightarrow> string" where
  "join_nl xs = (case xs of [] \<Rightarrow> [] | x # rest \<Rightarrow> x @ concat (map (\<lambda>y. CHR 0x0A # y) rest))"

definition indent :: "string \<Rightarrow> int \<Rightarrow> string \<Rightarrow> string" where
  "indent str dent prestr =
     join_nl (map (\<lambda>x. concat (replicate (nat dent) prestr) @ x) (split_nl str))"

text \<open>\<^verbatim>\<open>dedent\<close>: \<^verbatim>\<open>reduce(min, ...)\<close> of an empty sequence raises the
  \<^verbatim>\<open>TypeError\<close> that the function catches, with \<^verbatim>\<open>dent = 0\<close>.\<close>

definition dedent :: "string \<Rightarrow> string" where
  "dedent str =
     (let lines = split_nl str;
          widths = map (\<lambda>x. length x - length (lstrip x))
                     (filter (\<lambda>x. length (lstrip x) > 0) lines);
          dent = (case widths of [] \<Rightarrow> 0 | w # ws \<Rightarrow> fold (\<lambda>x acc. min acc x) ws w)
      in join_nl (map (\<lambda>x. if length (lstrip x) > 0
                            then (if drop dent x \<noteq> [] then drop dent x else x)
                            else x) lines))"

text \<open>The substitution of macros into a token list, as both \<^verbatim>\<open>output_decl\<close> (into a
  string) and \<^verbatim>\<open>print_level\<close> (onto the output) do it.\<close>

definition subst_macro :: "(string \<rightharpoonup> string) \<Rightarrow> string \<Rightarrow> string" where
  "subst_macro macros t = (case macros t of Some m \<Rightarrow> m | None \<Rightarrow> t)"

text \<open>The first loop of \<^verbatim>\<open>output_decl\<close> (the variable \<^verbatim>\<open>prevline\<close> is assigned and
  never read; it is left out).\<close>

fun output_decl_loop1 :: "decl list \<Rightarrow> string \<Rightarrow> (string \<rightharpoonup> string) \<Rightarrow> ostream \<Rightarrow> ostream" where
  "output_decl_loop1 [] dent macros out = out"
| "output_decl_loop1 (d # definitions) dent macros out =
     (if decl_lineno d \<noteq> - 1 \<or> length (decl_macro d) > 0 \<or> length (decl_init d) > 0
         \<or> length (decl_fninit d) > 0 then
        (if length (decl_macro d) = 0 then
           (let str = dent @ decl_type d;
                str = (if length (decl_type d) > 0 \<and> last (decl_type d) = CHR ''*''
                       then str @ decl_name d else str @ '' '' @ decl_name d);
                (str, out) =
                  (if length (decl_init d) > 0 then
                     (fold (\<lambda>t str. str @ subst_macro macros t) (fst (ctok (decl_init d)))
                        (str @ '' ''),
                      print_newline out)
                   else (str, out));
                str = str @ '';''
            in output_decl_loop1 definitions dent macros (py_print [str] out))
         else output_decl_loop1 definitions dent macros out)
      else output_decl_loop1 definitions dent macros out)"

fun output_decl_loop2 :: "decl list \<Rightarrow> string \<Rightarrow> ostream \<Rightarrow> ostream" where
  "output_decl_loop2 [] dent out = out"
| "output_decl_loop2 (d # definitions) dent out =
     (if length (decl_fninit d) > 0 then
        output_decl_loop2 definitions dent
          (py_print [indent (dedent (decl_fninit d)) (int (length dent)) '' ''] out)
      else output_decl_loop2 definitions dent out)"

text \<open>\<^verbatim>\<open>definitions.sort(lambda x, y: x.lineno - y.lineno)\<close> is a stable sort by line
  number.\<close>

definition output_decl :: "decl list \<Rightarrow> string \<Rightarrow> string \<Rightarrow> namespace \<Rightarrow> (string \<rightharpoonup> string)
    \<Rightarrow> ostream \<Rightarrow> ostream" where
  "output_decl definitions dent mfile params macros out =
     (let definitions = sort_key decl_lineno definitions
      in output_decl_loop2 definitions dent (output_decl_loop1 definitions dent macros out))"

text \<open>
  \<^verbatim>\<open>print_level\<close>. The local variable \<^verbatim>\<open>statements\<close> is rebound to a slice at every
  turn of the loop; the list the caller passed is the first value of that variable. As in
  \<^verbatim>\<open>propagate\<close>, the loop runs over references into the caller's statements and
  carries them, so that a write through \<^verbatim>\<open>l\<close> would show in the result; the function
  returns the statements as the call leaves them, and the output.
\<close>

fun print_level_loop :: "nat list \<Rightarrow> stmt list \<Rightarrow> int \<Rightarrow> int \<Rightarrow> (string \<rightharpoonup> string) \<Rightarrow> int
    \<Rightarrow> ostream \<Rightarrow> stmt list \<times> ostream" where
  "print_level_loop [] objs level dent macros prevline out = (objs, out)"
| "print_level_loop (l # statements) objs level dent macros prevline out =
     (if stmt_level (objs ! l) = level then
        (let prevline = stmt_lineno (objs ! l);
             dent = (if str_find (stmt_text (objs ! l)) ''}'' \<ge> 0
                        \<and> str_find (stmt_text (objs ! l)) ''{'' < 0
                     then dent - 4 else dent);
             toks = fst (ctok (stmt_text (objs ! l)));
             out = stdout_write (replicate (nat dent) CHR '' '') out;
             out = fold (\<lambda>t out. stdout_write (subst_macro macros t) out) toks out;
             out = print_newline out;
             dent = (if str_find (stmt_text (objs ! l)) ''{'' \<ge> 0
                        \<and> str_find (stmt_text (objs ! l)) ''}'' < 0
                     then dent + 4 else dent)
         in print_level_loop statements objs level dent macros prevline out)
      else print_level_loop statements objs level dent macros prevline out)"

definition print_level :: "stmt list \<Rightarrow> int \<Rightarrow> int \<Rightarrow> string \<Rightarrow> (string \<rightharpoonup> string) \<Rightarrow> ostream
    \<Rightarrow> stmt list \<times> ostream" where
  "print_level statements level dent name macros out =
     print_level_loop [0..<length statements] statements level dent macros (- 1) out"


definition contrib_replace :: "decl \<Rightarrow> string" where
  "contrib_replace x = (if length (decl_contrib x) > 0 then decl_contrib x else decl_macro x)"

definition get_replace_map :: "namespace \<Rightarrow> (decl \<Rightarrow> string) \<Rightarrow> (string \<rightharpoonup> string)" where
  "get_replace_map decls fn =
     (\<lambda>i. case decls i of
             None \<Rightarrow> None
           | Some d \<Rightarrow> if length (fn d) > 0 then Some (''('' @ fn d @ '')'') else None)"

section \<open>Template weaving\<close>

text \<open>
  The part of the main program that scans the template. What the description file has
  been parsed into is read from these variables of the main program; the two statement
  lists are passed to \<^verbatim>\<open>print_level\<close> and so belong to the state. Python 2 enumerates
  the keys of a dictionary in an order of its own: the lists \<^verbatim>\<open>post_used.keys()\<close>
  and \<^verbatim>\<open>decode_used.keys()\<close>, and the list \<^verbatim>\<open>pre\<close> that \<^verbatim>\<open>pre_infer\<close> builds by
  running over two dictionaries, are taken as they are.
\<close>

record metric =
  m_name :: string
  m_mfile :: string
  m_pre :: "string list"
  m_params :: namespace
  m_post_decl :: namespace
  m_post_used_keys :: "string list"
  m_decode_decl :: namespace
  m_decode_used_keys :: "string list"

record weave_state =
  ws_post :: "stmt list"
  ws_decode :: "stmt list"
  ws_out :: ostream

text \<open>\<^verbatim>\<open>map(lambda x: decl[x], keys)\<close>: \<open>None\<close> is the \<^verbatim>\<open>KeyError\<close> of a key that
  the namespace does not have.\<close>

fun lookup_all :: "namespace \<Rightarrow> string list \<Rightarrow> decl list option" where
  "lookup_all decl [] = Some []"
| "lookup_all decl (x # keys) =
     (case decl x of
        None \<Rightarrow> None
      | Some d \<Rightarrow> (case lookup_all decl keys of None \<Rightarrow> None | Some ds \<Rightarrow> Some (d # ds)))"

text \<open>
  The branches of the \<^verbatim>\<open>if\<close>/\<^verbatim>\<open>elif\<close> chain, which differ only in the identifier
  they compare \<^verbatim>\<open>nt[0]\<close> with: what is emitted for the identifier \<open>marker\<close>, in the
  order of the chain; \<open>None\<close> when it is none of the nine and the chain falls through to
  its \<^verbatim>\<open>else\<close>.
\<close>

definition emit_marker :: "metric \<Rightarrow> int \<Rightarrow> string \<Rightarrow> weave_state \<Rightarrow> weave_state result option" where
  "emit_marker m dent marker st =
     (if marker = ''METRIC_NAME'' then
        Some (Inr (st\<lparr>ws_out := py_print_comma [''/* METRIC_NAME */'', m_name m] (ws_out st)\<rparr>))
      else if marker = ''METRIC_DEPENDS_POST'' then
        Some (Inr (st\<lparr>ws_out := py_print_comma
          [''/* METRIC_DEPENDS_POST */'', str_int (int (length (ws_post st)))] (ws_out st)\<rparr>))
      else if marker = ''METRIC_PRE'' then
        Some (Inr (st\<lparr>ws_out := fold (\<lambda>l out. py_print [indent l dent '' ''] out) (m_pre m)
          (py_print [''/* METRIC_PRE */''] (ws_out st))\<rparr>))
      else if marker = ''METRIC_POST'' then
        (let out = py_print [''/* METRIC_POST */''] (ws_out st) in
         case lookup_all (m_post_decl m) (m_post_used_keys m) of
           None \<Rightarrow> Some (Inl (KeyError, out))
         | Some definitions \<Rightarrow>
             (let out = output_decl definitions (replicate (nat dent) CHR '' '') (m_mfile m)
                          (m_params m) (get_replace_map (m_post_decl m) decl_macro) out;
                  (post, out) = print_level (ws_post st) 1 dent (m_name m)
                                  (get_replace_map (m_post_decl m) decl_macro) out
              in Some (Inr (st\<lparr>ws_post := post, ws_out := out\<rparr>))))
      else if marker = ''METRIC_POST_PER_DOC'' then
        (let out = py_print [''/* METRIC_POST_PER_DOC */''] (ws_out st);
             (post, out) = print_level (ws_post st) 2 dent (m_name m)
                             (get_replace_map (m_post_decl m) decl_macro) out
         in Some (Inr (st\<lparr>ws_post := post, ws_out := out\<rparr>)))
      else if marker = ''METRIC_DECL'' then
        (let out = py_print [''/* METRIC_DECL */''] (ws_out st) in
         case lookup_all (m_decode_decl m) (m_decode_used_keys m) of
           None \<Rightarrow> Some (Inl (KeyError, out))
         | Some definitions \<Rightarrow>
             Some (Inr (st\<lparr>ws_out := output_decl definitions (replicate (nat dent) CHR '' '')
               (m_mfile m) (m_params m) (get_replace_map (m_decode_decl m) decl_macro) out\<rparr>)))
      else if marker = ''METRIC_PER_CALL'' then
        (let out = py_print [''/* METRIC_PER_CALL */''] (ws_out st);
             (decode, out) = print_level (ws_decode st) 1 dent (m_name m)
                               (get_replace_map (m_decode_decl m) decl_macro) out
         in Some (Inr (st\<lparr>ws_decode := decode, ws_out := out\<rparr>)))
      else if marker = ''METRIC_PER_DOC'' then
        (let out = py_print [''/* METRIC_PER_DOC */''] (ws_out st);
             (decode, out) = print_level (ws_decode st) 2 dent (m_name m)
                               (get_replace_map (m_decode_decl m) decl_macro) out;
             (decode, out) = print_level decode 3 dent (m_name m)
                               (get_replace_map (m_decode_decl m) decl_macro) out
         in Some (Inr (st\<lparr>ws_decode := decode, ws_out := out\<rparr>)))
      else if marker = ''METRIC_CONTRIB'' then
        (let out = py_print [''/* METRIC_CONTRIB */''] (ws_out st);
             (decode, out) = print_level (ws_decode st) 2 dent (m_name m)
                               (get_replace_map (m_decode_decl m) contrib_replace) out;
             (decode, out) = print_level decode 3 dent (m_name m)
                               (get_replace_map (m_decode_decl m) contrib_replace) out
         in Some (Inr (st\<lparr>ws_decode := decode, ws_out := out\<rparr>)))
      else None)"






section \<open>The main program: built-in quantities and the description file\<close>

text \<open>The variables of the main program that parsing fills.\<close>

record main_state =
  ms_params :: namespace
  ms_post_decl :: namespace
  ms_post :: "stmt list"
  ms_post_used :: usedset
  ms_decode_decl :: namespace
  ms_decode :: "stmt list"
  ms_decode_used :: usedset
  ms_comments :: "string list"
  ms_out :: ostream

definition initial_state :: main_state where
  "initial_state =
     \<lparr>ms_params = Map.empty, ms_post_decl = Map.empty, ms_post = [], ms_post_used = Map.empty,
      ms_decode_decl = Map.empty, ms_decode = [], ms_decode_used = Map.empty,
      ms_comments = [], ms_out = \<lparr>written = '''', softspace = False\<rparr>\<rparr>"

text \<open>The three shapes of call the main program makes:
  \<^verbatim>\<open>ins_decl([decode_decl], [decode_used], ...)\<close>,
  \<^verbatim>\<open>ins_decl([decode_decl, post_decl], [decode_used, post_used], ...)\<close> and
  \<^verbatim>\<open>ins_decl([params, post_decl, decode_decl], [decode_used, post_used], ...)\<close>.\<close>

definition ins_decode :: "string \<Rightarrow> string \<Rightarrow> int \<Rightarrow> string \<Rightarrow> int \<Rightarrow> string \<Rightarrow> string \<Rightarrow> string
    \<Rightarrow> string \<Rightarrow> main_state \<Rightarrow> main_state result" where
  "ins_decode mfile line level macro lineno fninit pre contrib ex st =
     (case ins_decl mfile [ms_decode_decl st] [ms_decode_used st] line level macro lineno
             fninit pre contrib ex (ms_out st) of
        Inl e \<Rightarrow> Inl e
      | Inr r \<Rightarrow>
          Inr (st\<lparr>ms_decode_decl := ins_namespaces r ! 0, ms_decode_used := ins_used r ! 0,
                  ms_out := ins_out r\<rparr>))"

definition ins_both :: "string \<Rightarrow> string \<Rightarrow> int \<Rightarrow> string \<Rightarrow> int \<Rightarrow> string \<Rightarrow> string \<Rightarrow> string
    \<Rightarrow> string \<Rightarrow> main_state \<Rightarrow> main_state result" where
  "ins_both mfile line level macro lineno fninit pre contrib ex st =
     (case ins_decl mfile [ms_decode_decl st, ms_post_decl st]
             [ms_decode_used st, ms_post_used st] line level macro lineno
             fninit pre contrib ex (ms_out st) of
        Inl e \<Rightarrow> Inl e
      | Inr r \<Rightarrow>
          Inr (st\<lparr>ms_decode_decl := ins_namespaces r ! 0, ms_post_decl := ins_namespaces r ! 1,
                  ms_decode_used := ins_used r ! 0, ms_post_used := ins_used r ! 1,
                  ms_out := ins_out r\<rparr>))"

definition ins_param :: "string \<Rightarrow> string \<Rightarrow> int \<Rightarrow> string \<Rightarrow> int \<Rightarrow> main_state
    \<Rightarrow> main_state result" where
  "ins_param mfile line level macro lineno st =
     (case ins_decl mfile [ms_params st, ms_post_decl st, ms_decode_decl st]
             [ms_decode_used st, ms_post_used st] line level macro lineno
             '''' '''' '''' '''' (ms_out st) of
        Inl e \<Rightarrow> Inl e
      | Inr r \<Rightarrow>
          Inr (st\<lparr>ms_params := ins_namespaces r ! 0, ms_post_decl := ins_namespaces r ! 1,
                  ms_decode_decl := ins_namespaces r ! 2,
                  ms_decode_used := ins_used r ! 0, ms_post_used := ins_used r ! 1,
                  ms_out := ins_out r\<rparr>))"

text \<open>A sequence of calls, which ends at the first one that does not return.\<close>

definition run_steps :: "('s \<Rightarrow> 's result) list \<Rightarrow> 's \<Rightarrow> 's result" where
  "run_steps steps st =
     fold (\<lambda>step r. case r of Inl e \<Rightarrow> Inl e | Inr st' \<Rightarrow> step st') steps (Inr st)"

definition nl :: string where
  "nl = [CHR 0x0A]"

text \<open>The declarations of the pre-declared quantities, in the order of the source.\<close>

definition declare_builtins :: "string \<Rightarrow> main_state \<Rightarrow> main_state result" where
  "declare_builtins mfile st = run_steps
     [ins_decode mfile ''const unsigned int f_t;'' 1 ''query->term[qterm].f_t'' (- 1)
        '''' '''' '''' ''number of documents in collection term occurs in'',
      ins_decode mfile ''const unsigned int F_t;'' 1 ''query->term[qterm].F_t'' (- 1)
        '''' '''' '''' ''number of times term occurs in collection'',
      ins_decode mfile ''const unsigned int f_dt;'' 3 '''' (- 1)
        '''' '''' '''' ''number of times term occurs in current document'',
      ins_both mfile ''float accumulator;'' 2 ''acc->acc.weight'' (- 1)
        '''' '''' '''' ''accumulated score of document'',
      ins_both mfile ''const unsigned int dterms = iobtree_size(idx->vocab);'' 1 '''' (- 1)
        '''' '''' '''' ''number of distinct terms in the collection'',
      ins_both mfile
        ''const double terms = ((double) UINT_MAX) * idx->stats.terms_high + idx->stats.terms_low;''
        1 '''' (- 1) '''' '''' '''' ''number of terms in the collection'',
      ins_both mfile ''const unsigned int N = docmap_entries(idx->map);'' 1 '''' (- 1)
        '''' '''' '''' ''number of documents in the collection'',
      ins_both mfile ''double avg_D_bytes;'' 1 '''' (- 1)
        (''         if (docmap_avg_bytes(idx->map, &avg_D_bytes) != DOCMAP_OK) {'' @ nl
         @ ''             return SEARCH_EINVAL;'' @ nl
         @ ''         }'')
        '''' '''' ''average bytes per document in the collection'',
      ins_both mfile ''double avg_D_terms;'' 1 '''' (- 1)
        (''         if (docmap_avg_words(idx->map, &avg_D_terms) != DOCMAP_OK) {'' @ nl
         @ ''             return SEARCH_EINVAL;'' @ nl
         @ ''         }'')
        '''' '''' ''average terms per document in the collection'',
      ins_both mfile ''double avg_D_dterms;'' 1 '''' (- 1)
        (''         if (docmap_avg_distinct_words(idx->map, &avg_D_dterms) != DOCMAP_OK) {'' @ nl
         @ ''             return SEARCH_EINVAL;'' @ nl
         @ ''         }'')
        '''' '''' ''average distinct terms per document in the collection'',
      ins_both mfile ''double avg_D_weight;'' 1 '''' (- 1)
        (''if (docmap_avg_weight(idx->map, &avg_D_weight) != DOCMAP_OK) {'' @ nl
         @ ''             return SEARCH_EINVAL;'' @ nl
         @ ''         }'')
        '''' '''' ''average cosine weight per document in the collection'',
      ins_both mfile ''const unsigned int Q_terms = search_qterms(query);'' 1 '''' (- 1)
        '''' '''' '''' ''number of terms in the query'',
      ins_both mfile ''const unsigned int Q_dterms;'' 1 ''query->terms'' (- 1)
        '''' '''' '''' ''number of distinct terms in the query'',
      ins_both mfile ''const float Q_weight = search_qweight(query);'' 1 '''' (- 1)
        '''' '''' '''' ''cosine weight of query'',
      ins_both mfile ''const unsigned int D_bytes;'' 2
        ''docmap_get_bytes_cached(idx->map, acc->acc.docno)'' (- 1) ''''
        (''if (docmap_cache(idx->map, docmap_get_cache(idx->map) | DOCMAP_CACHE_BYTES)''
         @ '' != DOCMAP_OK) return SEARCH_EINVAL;'')
        ''((float) avg_D_bytes)'' ''number of bytes in the current document'',
      ins_both mfile ''const unsigned int D_terms;'' 2
        ''DOCMAP_GET_WORDS(idx->map, acc->acc.docno)'' (- 1) ''''
        (''if (docmap_cache(idx->map, docmap_get_cache(idx->map) | DOCMAP_CACHE_WORDS)''
         @ '' != DOCMAP_OK) return SEARCH_EINVAL;'')
        ''((float) avg_D_terms)'' ''number of terms in the current document'',
      ins_both mfile ''const unsigned int D_dterms;'' 2
        ''DOCMAP_GET_DISTINCT_WORDS(idx->map, acc->acc.docno)'' (- 1) ''''
        (''if (docmap_cache(idx->map, docmap_get_cache(idx->map) | DOCMAP_CACHE_DISTINCT_WORDS)''
         @ '' != DOCMAP_OK) return SEARCH_EINVAL;'')
        ''((float) avg_D_dterms)'' ''number of distinct terms in the current document'',
      ins_both mfile ''const float D_weight;'' 2
        ''DOCMAP_GET_WEIGHT(idx->map, acc->acc.docno)'' (- 1) ''''
        (''if (docmap_cache(idx->map, docmap_get_cache(idx->map) | DOCMAP_CACHE_WEIGHT)''
         @ '' != DOCMAP_OK) return SEARCH_EINVAL;'')
        ''((float) avg_D_weight)'' ''cosine weight of the current document'',
      ins_both mfile ''const unsigned int f_qt;'' 1 ''query->term[qterm].f_qt'' (- 1)
        '''' '''' '''' ''number of times the current term occurred in the query'']
     st"

text \<open>\<^verbatim>\<open>line.split()\<close>: the maximal runs of characters that are not whitespace.\<close>

fun split_ws_from :: "string \<Rightarrow> string \<Rightarrow> string list" where
  "split_ws_from cur [] = (if cur = [] then [] else [cur])"
| "split_ws_from cur (c # s) =
     (if isspace_chr c then (if cur = [] then split_ws_from [] s else cur # split_ws_from [] s)
      else split_ws_from (cur @ [c]) s)"

definition split_ws :: "string \<Rightarrow> string list" where
  "split_ws s = split_ws_from [] s"

text \<open>The name of the metric: \<^verbatim>\<open>args[0].split('/')[-1].split('.')[0]\<close>.\<close>

definition metric_name :: "string \<Rightarrow> string" where
  "metric_name mfile =
     takeWhile (\<lambda>c. c \<noteq> CHR ''.'') (rev (takeWhile (\<lambda>c. c \<noteq> CHR ''/'') (rev mfile)))"

text \<open>
  The two branches of the main loop that read a function body, \<^verbatim>\<open>post() {\<close> and
  \<^verbatim>\<open>decode() {\<close>: \<^verbatim>\<open>process_decl\<close>, then \<^verbatim>\<open>levelise\<close>, then the test for the end
  of the file. \<open>fn\<close> is the word of the message.
\<close>

definition read_body :: "string \<Rightarrow> string \<Rightarrow> string list \<Rightarrow> namespace \<Rightarrow> stmt list \<Rightarrow> usedset
    \<Rightarrow> int \<Rightarrow> ostream \<Rightarrow> level_state result option" where
  "read_body mfile fn file decl list used lineno out =
     (case process_decl mfile file decl used lineno out of
        Inl e \<Rightarrow> Some (Inl e)
      | Inr ds \<Rightarrow>
          Option.bind
            (levelise mfile (ds_file ds) (ds_line ds) (ds_lineno ds) (ds_decl ds) list
               (ds_decl_used ds) (ds_out ds))
            (\<lambda>ls. if ls_line ls = '''' then
                     Some (Inl (SystemExit 2,
                       py_print [''#error '' @ dq @ ''unexpected EOF in '' @ fn @ dq]
                         (print_line_directive mfile (ls_lineno ls) (ls_out ls))))
                   else Some (Inr ls)))"

text \<open>The loop of the main program over the lines of the description file.\<close>

partial_function (option) parse_loop :: "string \<Rightarrow> string \<Rightarrow> string list \<Rightarrow> string \<Rightarrow> int
    \<Rightarrow> main_state \<Rightarrow> main_state result option" where
  "parse_loop mfile name file line lineno st =
     (if line \<noteq> '''' then
        (let sline = strip line;
             words = split_ws line
         in if length sline = 0 \<or> hd sline = CHR ''#'' then
              (case readline file of (line', file') \<Rightarrow>
                 parse_loop mfile name file' line' (lineno + 1)
                   (if lineno \<le> int (length (ms_comments st)) + 1 then
                      (if length sline > 0
                       then st\<lparr>ms_comments := ms_comments st @ [lstrip (tl (strip line))]\<rparr>
                       else st\<lparr>ms_comments := ms_comments st @ ['''']\<rparr>)
                    else st))
            else if length words > 1 \<and> hd words = ''parameter'' then
              (case dropWhile isdecl (tl words) of
                 [] \<Rightarrow> Some (Inl (IndexError, ms_out st))
               | v # _ \<Rightarrow>
                   (let vname = strip v;
                        vname = (if last vname = CHR '';'' then butlast vname else vname)
                    in case ins_param mfile (drop (length ''parameter'') line) 1
                              (''opt->u.'' @ name @ ''.'' @ vname) lineno st of
                         Inl e \<Rightarrow> Some (Inl e)
                       | Inr st' \<Rightarrow>
                           (case readline file of (line', file') \<Rightarrow>
                              parse_loop mfile name file' line' (lineno + 1) st')))
            else if length words = 2 \<and> words ! 0 = ''post()'' \<and> words ! 1 = ''{'' then
              Option.bind
                (read_body mfile ''post'' file (ms_post_decl st) (ms_post st) (ms_post_used st)
                   lineno (ms_out st))
                (\<lambda>r. case r of
                        Inl e \<Rightarrow> Some (Inl e)
                      | Inr ls \<Rightarrow>
                          (case readline (ls_file ls) of (line', file') \<Rightarrow>
                             parse_loop mfile name file' line' (ls_lineno ls + 1)
                               (st\<lparr>ms_post_decl := ls_decl ls, ms_post := ls_list ls,
                                   ms_post_used := ls_used ls, ms_out := ls_out ls\<rparr>)))
            else if length words = 2 \<and> words ! 0 = ''decode()'' \<and> words ! 1 = ''{'' then
              Option.bind
                (read_body mfile ''decode'' file (ms_decode_decl st) (ms_decode st)
                   (ms_decode_used st) lineno (ms_out st))
                (\<lambda>r. case r of
                        Inl e \<Rightarrow> Some (Inl e)
                      | Inr ls \<Rightarrow>
                          (case readline (ls_file ls) of (line', file') \<Rightarrow>
                             parse_loop mfile name file' line' (ls_lineno ls + 1)
                               (st\<lparr>ms_decode_decl := ls_decl ls, ms_decode := ls_list ls,
                                   ms_decode_used := ls_used ls, ms_out := ls_out ls\<rparr>)))
            else
              Some (Inl (SystemExit 2,
                py_print [''#error '' @ dq @ ''unexpected line:'', rstrip line, dq]
                  (print_line_directive mfile lineno (ms_out st)))))
      else Some (Inr st))"

declare parse_loop.simps [code]

text \<open>
  The main program from the built-in declarations to the propagation of levels, on the
  lines of the description file \<open>mfile\<close>. Between the loop over the lines and the
  propagation, the loop
  \<^verbatim>\<open>while (len(comments) > 0 and comments[-1] == ''): comments = comments[0:-1]\<close>
  takes the empty strings off the end of \<^verbatim>\<open>comments\<close>.
\<close>

definition parse_metric :: "string \<Rightarrow> string list \<Rightarrow> main_state result option" where
  "parse_metric mfile file =
     (case declare_builtins mfile initial_state of
        Inl e \<Rightarrow> Some (Inl e)
      | Inr st \<Rightarrow>
          (case readline file of (line, file') \<Rightarrow>
             Option.bind (parse_loop mfile (metric_name mfile) file' line 1 st)
               (\<lambda>r. case r of
                       Inl e \<Rightarrow> Some (Inl e)
                     | Inr st' \<Rightarrow>
                         Some (Inr (st'\<lparr>ms_comments :=
                                          rev (dropWhile (\<lambda>c. c = []) (rev (ms_comments st'))),
                                        ms_post := propagate (ms_post st'),
                                        ms_decode := propagate (ms_decode st')\<rparr>)))))"

section \<open>Properties of the program\<close>

subsection \<open>Facts about the tokenizer\<close>

lemma extend_tok_eq:
  "extend_tok p tok line char =
     (tok @ takeWhile p line, dropWhile p line, char + length (takeWhile p line))"
  by (induction line arbitrary: tok char) auto

lemma ctok_loop_concat:
  "concat (fst (ctok_loop line char toks chars)) = concat toks @ line"
  by (induction line char toks chars rule: ctok_loop.induct)
     (auto simp: extend_tok_eq Let_def)



subsection \<open>Facts about the body declaration scanner\<close>

lemma butlast_hd: "butlast xs = y # ys \<Longrightarrow> hd xs = y"
  by (cases xs) (auto split: if_splits)

text \<open>A call of \<^verbatim>\<open>ins_decl\<close> on one namespace that returns has added one name, which
  the namespace did not have, with the level of the call.\<close>

lemma ins_decl_single:
  assumes "ins_decl mfile [decl] [used] line level macro lineno fninit pre contrib ex out = Inr r"
  shows "\<exists>name d. decl name = None \<and> ins_namespaces r = [decl(name \<mapsto> d)] \<and> decl_level d = level"
proof -
  obtain comment line' out' where sc: "strip_comment mfile line lineno out = (comment, line', out')"
    by (cases "strip_comment mfile line lineno out") auto
  obtain toks chars where ct: "ctok_nspace (rstrip line') = (toks, chars)"
    by (cases "ctok_nspace (rstrip line')") auto
  from assms sc ct obtain type toks' where tl: "type_loop '''' toks = Some (type, toks')"
    by (cases "type_loop '''' toks") (auto simp: ins_decl_def)
  from assms sc ct tl have ne: "toks' \<noteq> []" and nocoll: "decl (hd toks') = None"
    by (auto simp: ins_decl_def split: if_splits)
  from assms sc ct tl ne nocoll obtain name rest where bl: "butlast toks' = name # rest"
    by (cases "butlast toks'") (auto simp: ins_decl_def Let_def split: if_splits)
  have hd: "hd toks' = name"
    using bl by (rule butlast_hd)
  define d where "d = Decl lineno name (strip type)
      (strip (slice_to
         (str_find (drop (chars ! (length chars - length (butlast toks'))) line') '';'')
         (drop (chars ! (length chars - length (butlast toks'))) line')))
      level macro comment fninit pre contrib ex"
  from assms sc ct tl ne nocoll bl
  have "ins_namespaces r = [decl(name \<mapsto> d)]"
    by (auto simp: ins_decl_def Let_def d_def split: if_splits option.splits)
  moreover have "decl name = None"
    using nocoll hd by simp
  moreover have "decl_level d = level"
    by (simp add: d_def Decl_def)
  ultimately show ?thesis
    by blast
qed

text \<open>The loop of \<^verbatim>\<open>process_decl\<close> keeps every declaration the namespace had, and
  every name it adds has level 1.\<close>

lemma process_decl_loop_extends:
  "process_decl_loop mfile file decl decl_used lineno line out = Inr r \<Longrightarrow>
   (\<forall>name d. decl name = Some d \<longrightarrow> ds_decl r name = Some d) \<and>
   (\<forall>name d. decl name = None \<longrightarrow> ds_decl r name = Some d \<longrightarrow> decl_level d = 1)"
proof (induction mfile "file" decl decl_used lineno line out arbitrary: r
    rule: process_decl_loop.induct)
  case (1 mfile file' decl decl_used lineno line out)
  note unfold = process_decl_loop.simps [of mfile file' decl decl_used lineno line out]
  show ?case
  proof (cases "line \<noteq> '''' \<and> rstrip line \<noteq> ''}''")
    case False
    with "1.prems" show ?thesis
      by (auto simp: unfold split: if_splits)
  next
    case running: True
    show ?thesis
    proof (cases "length (strip line) > 0 \<and> hd (strip line) \<noteq> CHR ''#''")
      case False
      obtain line' file'' where rl: "readline file' = (line', file'')"
        by (cases "readline file'") auto
      from "1.prems"(1) running False rl
      have "process_decl_loop mfile file'' decl decl_used (lineno + 1) line' out = Inr r"
        by (auto simp: unfold split: if_splits)
      with "1.IH"(2) [OF running False rl [symmetric]] show ?thesis
        by simp
    next
      case decl_line: True
      obtain toks chars where ct: "ctok_nspace line = (toks, chars)"
        by (cases "ctok_nspace line") auto
      show ?thesis
      proof (cases toks)
        case Nil
        with "1.prems"(1) running decl_line ct show ?thesis by (simp add: unfold)
      next
        case (Cons tok0 rest)
        show ?thesis
        proof (cases "isdecl tok0")
          case False
          with "1.prems" running decl_line ct Cons show ?thesis by (auto simp: unfold)
        next
          case True
          from "1.prems"(1) running decl_line ct Cons True
          obtain a where ins: "ins_decl mfile [decl] [decl_used] line 1 '''' lineno '''' '''' ''''
              ''user declared quantity'' out = Inr a"
            by (cases "ins_decl mfile [decl] [decl_used] line 1 '''' lineno '''' '''' ''''
              ''user declared quantity'' out") (auto simp: unfold)
          obtain line' file'' where rl: "readline file' = (line', file'')"
            by (cases "readline file'") auto
          from ins_decl_single [OF ins] obtain n dn where
            fresh: "decl n = None" and ns: "ins_namespaces a = [decl(n \<mapsto> dn)]"
            and lev: "decl_level dn = 1"
            by blast
          from "1.prems"(1) running decl_line ct Cons True ins rl ns
          have rec: "process_decl_loop mfile file'' (decl(n \<mapsto> dn)) (hd (ins_used a))
              (lineno + 1) line' (ins_out a) = Inr r"
            by (simp add: unfold)
          have ih: "(\<forall>name d. (decl(n \<mapsto> dn)) name = Some d \<longrightarrow> ds_decl r name = Some d) \<and>
              (\<forall>name d. (decl(n \<mapsto> dn)) name = None \<longrightarrow> ds_decl r name = Some d
                 \<longrightarrow> decl_level d = 1)"
            by (rule "1.IH"(1) [OF running decl_line ct [symmetric] Cons True ins rl [symmetric],
                  of r, unfolded ns list.sel, OF rec])
          from ih have ih1: "(decl(n \<mapsto> dn)) name = Some d \<Longrightarrow> ds_decl r name = Some d"
            and ih2: "(decl(n \<mapsto> dn)) name = None \<Longrightarrow> ds_decl r name = Some d
              \<Longrightarrow> decl_level d = 1" for name d
            by blast+
          show ?thesis
          proof (intro conjI allI impI)
            fix name d
            assume old: "decl name = Some d"
            with fresh have "name \<noteq> n" by auto
            with old show "ds_decl r name = Some d" by (intro ih1) simp
          next
            fix name d
            assume none: "decl name = None" and some: "ds_decl r name = Some d"
            show "decl_level d = 1"
            proof (cases "name = n")
              case True
              have "ds_decl r n = Some dn" by (intro ih1) simp
              with some lev True show ?thesis by simp
            next
              case False
              with none have "(decl(n \<mapsto> dn)) name = None" by simp
              then show ?thesis using some by (rule ih2)
            qed
          qed
        qed
      qed
    qed
  qed
qed

subsection \<open>The level of an assigned quantity\<close>

text \<open>
  Claim C2, at the description file \<^verbatim>\<open>decode() {\<close> / \<^verbatim>\<open>float x;\<close> /
  \<^verbatim>\<open>x = f_dt;\<close> / \<^verbatim>\<open>x = 1;\<close> / \<^verbatim>\<open>}\<close>. After the first assignment the stored
  level of \<^verbatim>\<open>x\<close> is 3, the level of \<^verbatim>\<open>f_dt\<close> (first conjunct: the file without the
  second assignment). The second assignment computes the level 1 and stores it: the level
  of \<^verbatim>\<open>x\<close> goes down from 3 to 1.
\<close>

theorem assignment_lowers_level:
  "map_option (map_sum fst (\<lambda>st. (map stmt_level (ms_decode st),
       map_option decl_level (ms_decode_decl st ''x''))))
     (parse_metric ''bm25.metric''
        [''decode() {'' @ nl, ''    float x;'' @ nl, ''    x = f_dt;'' @ nl, ''}'' @ nl]) =
   Some (Inr ([3], Some 3))
   \<and> map_option (map_sum fst (\<lambda>st. (map stmt_level (ms_decode st),
       map_option decl_level (ms_decode_decl st ''x''))))
     (parse_metric ''bm25.metric''
        [''decode() {'' @ nl, ''    float x;'' @ nl, ''    x = f_dt;'' @ nl, ''    x = 1;'' @ nl,
         ''}'' @ nl]) =
   Some (Inr ([3, 1], Some 1))"
  by code_simp

subsection \<open>The second pass of the propagation\<close>

text \<open>
  Claim C3, at the statements of the body
  \<^verbatim>\<open>if (N > 0) {\<close> / \<^verbatim>\<open>w = f_dt;\<close> / \<^verbatim>\<open>}\<close> with the levels 1, 3, 1 that
  \<^verbatim>\<open>levelise\<close> gives them. The first pass raises the closing brace to level 3. The
  second pass runs over the statements in the same forward order, so the opening line is
  compared with the level 0 that \<^verbatim>\<open>prevlevel\<close> starts with and stays at level 1, below
  the level 3 of the statement after it.
\<close>

theorem propagate_opening_brace_not_raised:
  "map stmt_level (propagate
     [\<lparr>stmt_lineno = 3, stmt_level = 1, stmt_text = ''if (N > 0) {''\<rparr>,
      \<lparr>stmt_lineno = 4, stmt_level = 3, stmt_text = ''w = f_dt;''\<rparr>,
      \<lparr>stmt_lineno = 5, stmt_level = 1, stmt_text = ''}''\<rparr>]) = [1, 3, 3]"
  by (simp add: propagate_def str_find_def)

subsection \<open>The names of a contribution text\<close>

text \<open>
  Claim C4, at the declarations of the pre-declared quantities, which the main program
  makes on every run. \<^verbatim>\<open>D_bytes\<close> is declared with the contribution text
  \<^verbatim>\<open>((float) avg_D_bytes)\<close>, and \<^verbatim>\<open>avg_D_bytes\<close> names a declaration of the first
  namespace by then. The assignment \<^verbatim>\<open>used[0] = t\<close> puts the name in the place of the
  first used-set in the list of the call; no used-set gets a member. After all the
  declarations neither used-set holds \<^verbatim>\<open>avg_D_bytes\<close>.
\<close>

theorem contrib_names_not_recorded:
  "map_sum fst (\<lambda>st. (map_option decl_contrib (ms_decode_decl st ''D_bytes''),
       map_option decl_name (ms_decode_decl st ''avg_D_bytes''),
       ms_decode_used st ''avg_D_bytes'', ms_post_used st ''avg_D_bytes''))
     (declare_builtins ''bm25.metric'' initial_state) =
   Inr (Some ''((float) avg_D_bytes)'', Some ''avg_D_bytes'', None, None)
   \<and> map_sum fst (\<lambda>r. (map (\<lambda>u. case u of UDict d \<Rightarrow> None | UStr t \<Rightarrow> Some t) (ins_used_list r),
       map (\<lambda>u. u ''k'') (ins_used r)))
     (ins_decl ''bm25.metric''
        [[''k'' \<mapsto> Decl (- 1) ''k'' ''double'' '''' 1 '''' '''' '''' '''' '''' ''''], Map.empty]
        [Map.empty, Map.empty] ''const unsigned int D;'' 2 '''' (- 1) '''' '''' ''((float) k)''
        '''' \<lparr>written = '''', softspace = False\<rparr>) =
   Inr ([Some ''k'', None], [None, None])"
  by code_simp

subsection \<open>The level of a quantity declared in a body\<close>

text \<open>The body \<^verbatim>\<open>float w_t;\<close> / \<^verbatim>\<open>w_t = f_dt;\<close> / \<^verbatim>\<open>}\<close>, read from line 2 of the
  file \<^verbatim>\<open>bm25.metric\<close> into an empty namespace.\<close>

lemma process_decl_example:
  "process_decl ''bm25.metric'' [''    float w_t;'' @ nl, ''    w_t = f_dt;'' @ nl, ''}'' @ nl]
     Map.empty Map.empty 1 \<lparr>written = '''', softspace = False\<rparr> =
   Inr \<lparr>ds_lineno = 3, ds_line = ''    w_t = f_dt;'' @ nl, ds_file = [''}'' @ nl],
        ds_decl = [''w_t'' \<mapsto> Decl 2 ''w_t'' ''float'' '''' 1 '''' '''' '''' '''' ''''
                     ''user declared quantity''],
        ds_decl_used = Map.empty, ds_out = \<lparr>written = '''', softspace = False\<rparr>\<rparr>"
  by (simp add: process_decl_def process_decl_loop.simps ins_decl_def strip_comment_def
      record_used_def Decl_def ctok_nspace_def ctok_def isspace_def isspace_chr_def isop_def
      isword_def isdecl_def rstrip_def lstrip_def strip_def str_find_def slice_to_def nl_def)

text \<open>
  Claim C5 as stated, at that body: the declaration line is passed to the declaration
  parser with level 1, and the stored level of \<^verbatim>\<open>w_t\<close> is 1, not 2.
\<close>

theorem process_decl_level_counterexample:
  "isl (process_decl ''bm25.metric''
          [''    float w_t;'' @ nl, ''    w_t = f_dt;'' @ nl, ''}'' @ nl]
          Map.empty Map.empty 1 \<lparr>written = '''', softspace = False\<rparr>) = False
   \<and> map_option decl_level
       (ds_decl (projr (process_decl ''bm25.metric''
          [''    float w_t;'' @ nl, ''    w_t = f_dt;'' @ nl, ''}'' @ nl]
          Map.empty Map.empty 1 \<lparr>written = '''', softspace = False\<rparr>)) ''w_t'') = Some 1
   \<and> map_option decl_level
       (ds_decl (projr (process_decl ''bm25.metric''
          [''    float w_t;'' @ nl, ''    w_t = f_dt;'' @ nl, ''}'' @ nl]
          Map.empty Map.empty 1 \<lparr>written = '''', softspace = False\<rparr>)) ''w_t'') \<noteq> Some 2"
  unfolding process_decl_example by (simp add: Decl_def)

text \<open>
  Claim C5, amended. Every declaration line that the body declaration scanner consumes is
  passed to the declaration parser with level 1, so every quantity that
  \<^verbatim>\<open>process_decl\<close> adds to the namespace of the body has the stored level 1.
\<close>

theorem process_decl_level_one:
  assumes "process_decl mfile file decl decl_used lineno out = Inr r"
    and "decl name = None"
    and "ds_decl r name = Some d"
  shows "decl_level d = 1"
proof -
  obtain line file' where rl: "readline file = (line, file')"
    by (cases "readline file") auto
  with assms(1) have "process_decl_loop mfile file' decl decl_used (lineno + 1) line out = Inr r"
    by (simp add: process_decl_def)
  from process_decl_loop_extends [OF this] assms(2,3) show ?thesis
    by blast
qed

theorem process_decl_level_one_witness:
  "decl_level (the (ds_decl (projr (process_decl ''bm25.metric''
      [''    float w_t;'' @ nl, ''    w_t = f_dt;'' @ nl, ''}'' @ nl]
      Map.empty Map.empty 1 \<lparr>written = '''', softspace = False\<rparr>)) ''w_t'')) = 1"
proof -
  let ?d = "Decl 2 ''w_t'' ''float'' '''' 1 '''' '''' '''' '''' '''' ''user declared quantity''"
  have "decl_level ?d = 1"
    by (rule process_decl_level_one [OF process_decl_example, of "''w_t''"]) simp_all
  then show ?thesis
    unfolding process_decl_example by simp
qed

subsection \<open>Assigning to a constant\<close>

text \<open>
  Claim C6, at the description file \<^verbatim>\<open>decode() {\<close> / \<^verbatim>\<open>f_t = 1;\<close> / \<^verbatim>\<open>}\<close>.
  \<^verbatim>\<open>f_t\<close> is pre-declared with the type \<^verbatim>\<open>const unsigned int\<close> and, as every
  pre-declared quantity, the line number \<open>-1\<close>; \<^verbatim>\<open>levelise\<close> tests the line number
  against 0. Nothing is printed, the assignment is kept as a statement, and parsing
  returns.
\<close>

theorem const_assignment_not_reported:
  "map_option (map_sum fst (\<lambda>st. (ms_decode st, ms_out st,
       map_option decl_lineno (ms_decode_decl st ''f_t''),
       map_option decl_type (ms_decode_decl st ''f_t''))))
     (parse_metric ''bm25.metric'' [''decode() {'' @ nl, ''    f_t = 1;'' @ nl, ''}'' @ nl]) =
   Some (Inr ([\<lparr>stmt_lineno = 2, stmt_level = 1, stmt_text = ''f_t = 1;''\<rparr>],
              \<lparr>written = '''', softspace = False\<rparr>, Some (- 1), Some ''const unsigned int''))"
  by code_simp

subsection \<open>A block comment that is not closed\<close>

text \<open>
  Claim C7, at the description file \<^verbatim>\<open>decode() {\<close> / \<^verbatim>\<open>float x /* weight ;\<close> /
  \<^verbatim>\<open>x = 1;\<close> / \<^verbatim>\<open>}\<close>. The declaration parser prints the two lines of the message and
  goes on: \<^verbatim>\<open>x\<close> is declared, with the rest of the line as its initialiser, the
  statement after it is read, and parsing returns.
\<close>

theorem unterminated_comment_not_fatal:
  "map_option (map_sum fst (\<lambda>st. (ms_decode st, ms_out st,
       map_option decl_init (ms_decode_decl st ''x''))))
     (parse_metric ''bm25.metric''
        [''decode() {'' @ nl, ''    float x /* weight ;'' @ nl, ''    x = 1;'' @ nl, ''}'' @ nl]) =
   Some (Inr ([\<lparr>stmt_lineno = 3, stmt_level = 1, stmt_text = ''x = 1;''\<rparr>],
              \<lparr>written = ''#line 2 '' @ dq @ ''bm25.metric'' @ dq @ nl
                 @ ''#error '' @ dq @ ''multiline comment in declaration'' @ dq @ nl,
               softspace = False\<rparr>,
              Some ''/* weight''))"
  by code_simp

subsection \<open>The name marker\<close>

















subsection \<open>The tokenizer loses nothing and records where each token starts\<close>

lemma ctok_loop_length:
  "length chars = length toks \<Longrightarrow>
   length (snd (ctok_loop line char toks chars)) = length (fst (ctok_loop line char toks chars))"
  by (induction line char toks chars rule: ctok_loop.induct)
     (auto simp: extend_tok_eq Let_def)

lemma ctok_loop_offsets:
  "length chars = length toks \<Longrightarrow> char = length (concat toks) \<Longrightarrow>
   \<forall>i<length toks. chars ! i = length (concat (take i toks)) \<Longrightarrow>
   i < length (fst (ctok_loop line char toks chars)) \<Longrightarrow>
   snd (ctok_loop line char toks chars) ! i =
     length (concat (take i (fst (ctok_loop line char toks chars))))"
proof (induction line char toks chars rule: ctok_loop.induct)
  case (1 char toks chars)
  then show ?case by simp
next
  case (2 c line char toks chars)
  have ext: "\<forall>i<length (toks @ [t]).
      (chars @ [char]) ! i = length (concat (take i (toks @ [t])))" for t
    using 2(5,6,7) by (auto simp: nth_append less_Suc_eq)
  show ?case
    using 2 ext
    by (auto simp: extend_tok_eq Let_def simp del: take_append split: if_splits)
qed

text \<open>
  Claim C9. For every line, the tokens of \<^verbatim>\<open>ctok(line)\<close> concatenated in order are the
  line itself; there is one offset per token; and the \<open>i\<close>-th offset is the number of
  characters of the line before the \<open>i\<close>-th token, that is, the index at which that
  token starts.
\<close>

theorem ctok_lossless_offsets:
  "concat (fst (ctok line)) = line \<and>
   length (snd (ctok line)) = length (fst (ctok line)) \<and>
   (\<forall>i<length (fst (ctok line)).
      snd (ctok line) ! i = length (concat (take i (fst (ctok line)))))"
  unfolding ctok_def
  using ctok_loop_concat [of line 0 "[]" "[]"] ctok_loop_length [of "[]" "[]" line 0]
    ctok_loop_offsets [of "[]" "[]" 0 _ line]
  by simp

lemma ctok_example:
  "ctok ''s = k1;'' = ([''s'', '' '', ''='', '' '', ''k1'', '';''], [0, 1, 2, 3, 4, 6])"
  by (simp add: ctok_def isspace_chr_def isop_def isword_def)

theorem ctok_lossless_offsets_witness:
  "concat (fst (ctok ''s = k1;'')) = ''s = k1;'' \<and>
   (4::nat) < length (fst (ctok ''s = k1;'')) \<and>
   snd (ctok ''s = k1;'') ! 4 = length (concat (take 4 (fst (ctok ''s = k1;'')))) \<and>
   snd (ctok ''s = k1;'') ! 4 = 4"
proof -
  have len: "(4::nat) < length (fst (ctok ''s = k1;''))"
    by (simp add: ctok_example)
  have off: "snd (ctok ''s = k1;'') ! 4 = 4"
    by (simp add: ctok_example)
  from ctok_lossless_offsets [of "''s = k1;''"] len off show ?thesis
    by blast
qed

subsection \<open>Emission leaves the statements as they are\<close>

lemma print_level_loop_frame:
  "fst (print_level_loop refs objs level dent macros prevline out) = objs"
  by (induction refs arbitrary: dent prevline out) (simp_all add: Let_def)

lemma print_level_fst:
  "print_level statements level dent name macros out = (objs, out') \<Longrightarrow> objs = statements"
  using print_level_loop_frame [of "[0..<length statements]" statements level dent macros "- 1" out]
  by (simp add: print_level_def)

text \<open>
  Claim C10. \<^verbatim>\<open>print_level\<close> leaves the statements it is given as they are: the same
  objects in the same order, each with its line, level and text. So a
  \<^verbatim>\<open>METRIC_PER_DOC\<close> marker changes nothing of the state but the output, and a
  \<^verbatim>\<open>METRIC_CONTRIB\<close> marker after it is given the same decode statements and again
  changes only the output.
\<close>

theorem print_level_leaves_statements:
  "fst (print_level statements level dent name macros out) = statements \<and>
   (\<exists>out1. emit_marker m dent1 ''METRIC_PER_DOC'' st = Some (Inr (st\<lparr>ws_out := out1\<rparr>)) \<and>
      (\<exists>out2. emit_marker m dent2 ''METRIC_CONTRIB'' (st\<lparr>ws_out := out1\<rparr>) =
                 Some (Inr (st\<lparr>ws_out := out2\<rparr>))))"
proof -
  have frame: "fst (print_level statements level dent name macros out) = statements"
    by (simp add: print_level_def print_level_loop_frame)
  have per_doc: "\<exists>out1. emit_marker m dent1 ''METRIC_PER_DOC'' st = Some (Inr (st\<lparr>ws_out := out1\<rparr>))"
    by (auto simp: emit_marker_def Let_def split: prod.splits dest!: print_level_fst)
  have contrib: "\<exists>out2. emit_marker m dent2 ''METRIC_CONTRIB'' (st\<lparr>ws_out := out1\<rparr>) =
      Some (Inr (st\<lparr>ws_out := out2\<rparr>))" for out1
    by (auto simp: emit_marker_def Let_def split: prod.splits dest!: print_level_fst)
  from frame per_doc contrib show ?thesis by blast
qed

end
